theory Spec2Isabelle
  imports Complex_Main
begin

text \<open>
  The survey application of \<open>src/app/create/page.tsx\<close>: the text-to-survey parser
  \<open>convertTextToSurvey\<close>, the scoring formulas of \<open>SURVEY_TYPES\<close> that filter answers
  by a numeric range (NPS, CSAT, CES), the response aggregator \<open>aggregateResponses\<close>, the
  writes of a survey status, and the submission of a response on the TakeSurvey page. Definitions come first, each next to the source
  expression it renders; the properties follow.
\<close>

section \<open>JavaScript strings\<close>

text \<open>
  A JavaScript string is a sequence of UTF-16 code units. The model uses \<^typ>\<open>string\<close>,
  whose characters are the code units below 256 (ASCII and Latin-1); every function below
  is written for that range. Relational operators on two strings compare code units
  lexicographically, which is what \<open>str_le\<close> does.
\<close>

definition code_unit :: "char \<Rightarrow> nat" where
  "code_unit c = of_char c"

fun str_le :: "string \<Rightarrow> string \<Rightarrow> bool" where
  "str_le [] ys = True"
| "str_le (x # xs) [] = False"
| "str_le (x # xs) (y # ys) = (if x = y then str_le xs ys else code_unit x < code_unit y)"

definition str_ge :: "string \<Rightarrow> string \<Rightarrow> bool" where
  "str_ge s t = str_le t s"

text \<open>
  White space as \<open>String.prototype.trim\<close> and the regular expression class \<open>\s\<close> see it
  (both are WhiteSpace plus LineTerminator): below 256 these are TAB, LF, VT, FF, CR, SP
  and NBSP.
\<close>

definition is_space :: "char \<Rightarrow> bool" where
  "is_space c = (c = CHR 0x09 \<or> c = CHR 0x0A \<or> c = CHR 0x0B \<or> c = CHR 0x0C \<or>
                 c = CHR 0x0D \<or> c = CHR 0x20 \<or> c = CHR 0xA0)"

definition trim :: "string \<Rightarrow> string" where
  "trim s = rev (dropWhile is_space (rev (dropWhile is_space s)))"

text \<open>The class \<open>\d\<close> (without the unicode flag): the ten ASCII digits.\<close>

definition is_digit :: "char \<Rightarrow> bool" where
  "is_digit c = (48 \<le> code_unit c \<and> code_unit c \<le> 57)"

definition digit_val :: "char \<Rightarrow> nat" where
  "digit_val c = code_unit c - 48"

text \<open>
  \<open>String.prototype.toLowerCase\<close> below 256: A-Z and the Latin-1 capitals
  U+00C0..U+00DE (U+00D7, the multiplication sign, apart) move up by 32; no other
  code unit below 256 changes, and none maps outside the range.
\<close>

definition lower_char :: "char \<Rightarrow> char" where
  "lower_char c =
     (let n = code_unit c in
      if (65 \<le> n \<and> n \<le> 90) \<or> (192 \<le> n \<and> n \<le> 222 \<and> n \<noteq> 215)
      then char_of (n + 32) else c)"

definition toLowerCase :: "string \<Rightarrow> string" where
  "toLowerCase s = map lower_char s"

fun startsWith :: "string \<Rightarrow> string \<Rightarrow> bool" where
  "startsWith s [] = True"
| "startsWith [] (p # ps) = False"
| "startsWith (c # cs) (p # ps) = (c = p \<and> startsWith cs ps)"

fun js_includes :: "string \<Rightarrow> string \<Rightarrow> bool" where
  "js_includes [] p = (p = [])"
| "js_includes (c # cs) p = (startsWith (c # cs) p \<or> js_includes cs p)"

text \<open>\<open>text.split('\n')\<close>: the pieces between line feeds; never an empty array.\<close>

fun split_acc :: "string \<Rightarrow> string \<Rightarrow> string list" where
  "split_acc cur [] = [rev cur]"
| "split_acc cur (c # cs) =
     (if c = CHR 0x0A then rev cur # split_acc [] cs else split_acc (c # cur) cs)"

definition split_lines :: "string \<Rightarrow> string list" where
  "split_lines s = split_acc [] s"

text \<open>The decimal rendering of a non-negative integer, as a template literal prints it.\<close>

fun string_of_nat :: "nat \<Rightarrow> string" where
  "string_of_nat n =
     (if n < 10 then [char_of (48 + n)]
      else string_of_nat (n div 10) @ [char_of (48 + n mod 10)])"

declare string_of_nat.simps [simp del]

section \<open>Data model\<close>

datatype question_type = multiple_choice | text_type | rating | yes_no

text \<open>
  \<open>interface Question\<close>; the optional \<open>options\<close> field is \<open>None\<close> when it is absent.
\<close>

record question =
  q_id :: string
  q_text :: string
  q_type :: question_type
  q_options :: "string list option"

text \<open>\<open>interface Survey\<close> as the parser builds it (it sets no status).\<close>

record survey =
  title :: string
  description :: string
  questions :: "question list"

section \<open>The text-to-survey parser\<close>

text \<open>
  \<open>/^(Title|Survey|#):\s*/i\<close> replaced by the empty string: one of the three labels,
  letters in either case, then a colon, then any run of white space. A line that does not
  start so is returned unchanged.
\<close>

definition strip_title_label :: "string \<Rightarrow> string" where
  "strip_title_label s =
     (if startsWith (toLowerCase s) ''title:'' then dropWhile is_space (drop 6 s)
      else if startsWith (toLowerCase s) ''survey:'' then dropWhile is_space (drop 7 s)
      else if startsWith s ''#:'' then dropWhile is_space (drop 2 s)
      else s)"

text \<open>\<open>/^\d+[\.\)]/.test(line)\<close>: one or more digits, then a dot or a closing parenthesis.\<close>

definition is_numbered :: "string \<Rightarrow> bool" where
  "is_numbered line =
     (takeWhile is_digit line \<noteq> [] \<and>
      (case dropWhile is_digit line of
         [] \<Rightarrow> False
       | c # cs \<Rightarrow> c = CHR ''.'' \<or> c = CHR '')''))"

text \<open>\<open>line.replace(/^\d+[\.\)]\s*/, '')\<close>.\<close>

definition strip_number :: "string \<Rightarrow> string" where
  "strip_number line =
     (if is_numbered line then dropWhile is_space (tl (dropWhile is_digit line)) else line)"

text \<open>\<open>line.replace(/^[-*]\s*/, '').trim()\<close>.\<close>

definition strip_bullet :: "string \<Rightarrow> string" where
  "strip_bullet line =
     trim (case line of
             [] \<Rightarrow> []
           | c # cs \<Rightarrow> if c = CHR ''-'' \<or> c = CHR ''*'' then dropWhile is_space cs else c # cs)"

text \<open>
  The keyword chain that types a new question, on the lower-cased line. The third branch
  also initialises the options array; the result carries both fields.
\<close>

definition infer_type :: "string \<Rightarrow> question_type \<times> string list option" where
  "infer_type questionText =
     (if js_includes questionText ''rate'' \<or> js_includes questionText ''scale'' \<or>
         js_includes questionText ''satisfaction'' \<or> js_includes questionText ''how satisfied''
      then (rating, None)
      else if js_includes questionText ''do you agree'' \<or>
              js_includes questionText ''would you agree'' \<or>
              js_includes questionText ''is it true'' \<or>
              (js_includes questionText ''yes'' \<and> js_includes questionText ''no'')
      then (yes_no, None)
      else if js_includes questionText ''select'' \<or> js_includes questionText ''choose'' \<or>
              js_includes questionText ''which'' \<or> js_includes questionText ''pick''
      then (multiple_choice, Some [])
      else if js_includes questionText ''explain'' \<or> js_includes questionText ''describe'' \<or>
              js_includes questionText ''what'' \<or> js_includes questionText ''how'' \<or>
              js_includes questionText ''why''
      then (text_type, None)
      else (text_type, None))"

text \<open>
  Reading a property of \<open>undefined\<close> (\<open>lines[i].trim()\<close> past the end of the array,
  \<open>options.push\<close> on a missing array) throws a TypeError; the model returns it as a value.
\<close>

datatype js_error = TypeError

text \<open>\<open>lines[i]\<close> on an array: undefined (\<open>None\<close>) out of range.\<close>

fun js_index :: "'a list \<Rightarrow> nat \<Rightarrow> 'a option" where
  "js_index [] i = None"
| "js_index (x # xs) 0 = Some x"
| "js_index (x # xs) (Suc i) = js_index xs i"

text \<open>
  The loop state: the \<open>questions\<close> array and \<open>currentQuestion\<close>, which is \<open>None\<close> while it
  is still the empty object. \<open>flush\<close> is \<open>if (currentQuestion.text) questions.push(...)\<close>:
  the push happens when the field is set and is not the empty string.
\<close>

type_synonym scan_state = "question list \<times> question option"

definition flush :: "scan_state \<Rightarrow> question list" where
  "flush st = (case snd st of
                 None \<Rightarrow> fst st
               | Some q \<Rightarrow> if q_text q \<noteq> [] then fst st @ [q] else fst st)"

definition new_question :: "question list \<Rightarrow> string \<Rightarrow> question" where
  "new_question qs line =
     \<lparr>q_id = ''q'' @ string_of_nat (length qs + 1),
      q_text = strip_number line,
      q_type = fst (infer_type (toLowerCase line)),
      q_options = snd (infer_type (toLowerCase line))\<rparr>"

text \<open>
  The body of the dash branch: initialise the options when they are missing (an array,
  even an empty one, is truthy), then push.
\<close>

definition add_option :: "question \<Rightarrow> string \<Rightarrow> js_error + question" where
  "add_option q line =
     (let q1 = (if q_options q = None
                then q\<lparr>q_type := multiple_choice, q_options := Some []\<rparr> else q)
      in case q_options q1 of
           None \<Rightarrow> Inl TypeError
         | Some opts \<Rightarrow> Inr (q1\<lparr>q_options := Some (opts @ [strip_bullet line])\<rparr>))"

text \<open>One iteration of the \<open>for\<close> loop, on the array element \<open>lines[i]\<close>.\<close>

definition scan_step :: "scan_state \<Rightarrow> string \<Rightarrow> js_error + scan_state" where
  "scan_step st raw =
     (let line = trim raw in
      if line = [] then Inr st
      else if is_numbered line then Inr (flush st, Some (new_question (flush st) line))
      else if startsWith line ''-'' \<or> startsWith line ''*''
      then (case snd st of
              None \<Rightarrow> Inr st
            | Some q \<Rightarrow>
                if q_text q \<noteq> []
                then (case add_option q line of
                        Inl e \<Rightarrow> Inl e
                      | Inr q' \<Rightarrow> Inr (fst st, Some q'))
                else Inr st)
      else Inr st)"

text \<open>\<open>for (let i = ...; i < lines.length; i++)\<close>, started at index \<open>i\<close>.\<close>

function scan_from :: "nat \<Rightarrow> string list \<Rightarrow> scan_state \<Rightarrow> js_error + scan_state" where
  "scan_from i lines st =
     (if i < length lines
      then (case js_index lines i of
              None \<Rightarrow> Inl TypeError
            | Some raw \<Rightarrow>
                (case scan_step st raw of
                   Inl e \<Rightarrow> Inl e
                 | Inr st' \<Rightarrow> scan_from (Suc i) lines st'))
      else Inr st)"
  by pat_completeness auto
termination
  by (relation "measure (\<lambda>(i, lines, st). length lines - i)") auto

declare scan_from.simps [simp del]

definition nonblank :: "string \<Rightarrow> bool" where
  "nonblank line = (trim line \<noteq> [])"

definition placeholder :: question where
  "placeholder =
     \<lparr>q_id = ''q1'', q_text = ''No questions were found in the response'',
      q_type = text_type, q_options = None\<rparr>"

text \<open>\<open>x || fallback\<close> on a string that may be undefined (\<open>None\<close>).\<close>

definition or_else :: "string option \<Rightarrow> string \<Rightarrow> string" where
  "or_else x fallback = (case x of None \<Rightarrow> fallback | Some s \<Rightarrow> if s = [] then fallback else s)"

text \<open>\<open>text.split('\n').filter(line => line.trim())\<close>.\<close>

definition parsed_lines :: "string \<Rightarrow> string list" where
  "parsed_lines txt = filter nonblank (split_lines txt)"

text \<open>The loop from index 2 and the push of the last question.\<close>

definition parse_questions :: "string list \<Rightarrow> js_error + question list" where
  "parse_questions lines =
     (case scan_from 2 lines ([], None) of
        Inl e \<Rightarrow> Inl e
      | Inr st \<Rightarrow> Inr (flush st))"

definition convertTextToSurvey :: "string \<Rightarrow> js_error + survey" where
  "convertTextToSurvey txt =
     (let lines = parsed_lines txt;
          title = or_else (map_option (trim \<circ> strip_title_label) (js_index lines 0))
                    ''Untitled Survey'';
          description = or_else (map_option trim (js_index lines 1))
                          ''No description provided''
      in case parse_questions lines of
           Inl e \<Rightarrow> Inl e
         | Inr qs \<Rightarrow>
             Inr \<lparr>title = title, description = description,
                  questions = (if length qs > 0 then qs else [placeholder])\<rparr>)"

section \<open>Numbers\<close>

text \<open>
  A JavaScript number is a double. The model keeps a finite one as an exact rational and
  has NaN and the two infinities as values of their own. A result is rounded to nearest:
  from \<open>2^1024 - 2^970\<close> on (half a step above the largest double) it is an infinity.
  That overflow is modelled (\<open>js_num\<close>); the rounding of finite results and the sign of
  zero are not.
\<close>

datatype jsnum = Num rat | NaN | Infinity bool

definition double_limit :: int where
  "double_limit = 179769313486231580793728971405303415079934132710037826936173778980444968292764750946649017977587207096330286416692887910946555547851940402630657488671505820681908902000708383676273854845817711531764475730270069855571366959622842914819860834936475292719074168444365510704342711559699508093042880177904174497792"

definition js_num :: "rat \<Rightarrow> jsnum" where
  "js_num r =
     (if of_int double_limit \<le> r then Infinity True
      else if r \<le> - of_int double_limit then Infinity False
      else Num r)"

fun js_neg :: "jsnum \<Rightarrow> jsnum" where
  "js_neg (Num a) = Num (- a)"
| "js_neg NaN = NaN"
| "js_neg (Infinity s) = Infinity (\<not> s)"

fun js_add :: "jsnum \<Rightarrow> jsnum \<Rightarrow> jsnum" where
  "js_add (Num a) (Num b) = js_num (a + b)"
| "js_add NaN y = NaN"
| "js_add x NaN = NaN"
| "js_add (Infinity s) (Infinity t) = (if s = t then Infinity s else NaN)"
| "js_add (Infinity s) (Num b) = Infinity s"
| "js_add (Num a) (Infinity t) = Infinity t"

definition js_sub :: "jsnum \<Rightarrow> jsnum \<Rightarrow> jsnum" where
  "js_sub x y = js_add x (js_neg y)"

fun js_mul :: "jsnum \<Rightarrow> jsnum \<Rightarrow> jsnum" where
  "js_mul (Num a) (Num b) = js_num (a * b)"
| "js_mul NaN y = NaN"
| "js_mul x NaN = NaN"
| "js_mul (Infinity s) (Infinity t) = Infinity (s = t)"
| "js_mul (Infinity s) (Num b) = (if b = 0 then NaN else Infinity (s = (0 < b)))"
| "js_mul (Num a) (Infinity t) = (if a = 0 then NaN else Infinity (t = (0 < a)))"

fun js_div :: "jsnum \<Rightarrow> jsnum \<Rightarrow> jsnum" where
  "js_div (Num a) (Num b) =
     (if b = 0 then (if a = 0 then NaN else Infinity (0 < a)) else js_num (a / b))"
| "js_div NaN y = NaN"
| "js_div x NaN = NaN"
| "js_div (Infinity s) (Infinity t) = NaN"
| "js_div (Infinity s) (Num b) = Infinity (s = (0 \<le> b))"
| "js_div (Num a) (Infinity t) = Num 0"

text \<open>\<open>x >= y\<close> and \<open>x <= y\<close> on numbers: false as soon as one side is NaN.\<close>

fun js_le :: "jsnum \<Rightarrow> jsnum \<Rightarrow> bool" where
  "js_le (Num a) (Num b) = (a \<le> b)"
| "js_le NaN y = False"
| "js_le x NaN = False"
| "js_le (Infinity s) (Infinity t) = (t \<or> \<not> s)"
| "js_le (Infinity s) (Num b) = (\<not> s)"
| "js_le (Num a) (Infinity t) = t"

definition js_ge :: "jsnum \<Rightarrow> jsnum \<Rightarrow> bool" where
  "js_ge x y = js_le y x"

text \<open>
  \<open>parseInt(s)\<close> with no radix: leading white space is skipped, then an optional sign,
  then \<open>0x\<close> or \<open>0X\<close> selects base 16 (base 10 otherwise); the longest run of digits of
  that base is read, and NaN is the result when the run is empty. The value of a long run
  is outside the range of the doubles and comes out as an infinity.
\<close>

definition is_hex_digit :: "char \<Rightarrow> bool" where
  "is_hex_digit c = (is_digit c \<or> (97 \<le> code_unit c \<and> code_unit c \<le> 102) \<or>
                     (65 \<le> code_unit c \<and> code_unit c \<le> 70))"

definition hex_digit_val :: "char \<Rightarrow> nat" where
  "hex_digit_val c =
     (if is_digit c then digit_val c
      else if 97 \<le> code_unit c then code_unit c - 87
      else code_unit c - 55)"

definition digits_val :: "int \<Rightarrow> (char \<Rightarrow> nat) \<Rightarrow> string \<Rightarrow> int" where
  "digits_val radix val ds = foldl (\<lambda>acc d. acc * radix + int (val d)) 0 ds"

definition parseInt :: "string \<Rightarrow> jsnum" where
  "parseInt s =
     (let s1 = dropWhile is_space s;
          negative = startsWith s1 ''-'';
          s2 = (if startsWith s1 ''-'' \<or> startsWith s1 ''+'' then tl s1 else s1);
          hex = (startsWith s2 ''0x'' \<or> startsWith s2 ''0X'');
          s3 = (if hex then drop 2 s2 else s2);
          ds = takeWhile (if hex then is_hex_digit else is_digit) s3;
          n = (if hex then digits_val 16 hex_digit_val ds else digits_val 10 digit_val ds)
      in if ds = [] then NaN
         else js_num (if negative then - of_int n else of_int n))"

section \<open>Responses and the scoring formulas\<close>

text \<open>
  \<open>interface SurveyAnswer\<close> and \<open>interface SurveyResponseData\<close>; a response is a string,
  as the interface declares it.
\<close>

record survey_answer =
  question_id :: string
  response :: string

record survey_response_data =
  r_id :: string
  created_at :: string
  answers :: "survey_answer list"

text \<open>
  \<open>responses.flatMap(r => r.answers.filter(keep).map(f))\<close>, the shape the formulas start
  with.
\<close>

definition flat_answers ::
  "(survey_answer \<Rightarrow> bool) \<Rightarrow> (survey_answer \<Rightarrow> 'a) \<Rightarrow> survey_response_data list \<Rightarrow> 'a list"
where
  "flat_answers keep f responses = concat (map (\<lambda>r. map f (filter keep (answers r))) responses)"

text \<open>\<open>xs.reduce((sum, score) => sum + score, 0)\<close>.\<close>

definition js_sum :: "jsnum list \<Rightarrow> jsnum" where
  "js_sum xs = foldl js_add (Num 0) xs"

definition num_of_nat :: "nat \<Rightarrow> jsnum" where
  "num_of_nat n = Num (of_nat n)"

text \<open>NPS. The filter compares the response with the strings \<open>'0'\<close> and \<open>'10'\<close>.\<close>

definition nps_scores :: "survey_response_data list \<Rightarrow> jsnum list" where
  "nps_scores responses =
     flat_answers (\<lambda>a. str_ge (response a) ''0'' \<and> str_le (response a) ''10'')
       (\<lambda>a. parseInt (response a)) responses"

definition nps_calculateScore :: "survey_response_data list \<Rightarrow> jsnum" where
  "nps_calculateScore responses =
     (let scores = nps_scores responses in
      if length scores = 0 then Num 0
      else
        let promoters = length (filter (\<lambda>score. js_ge score (Num 9)) scores);
            detractors = length (filter (\<lambda>score. js_le score (Num 6)) scores)
        in js_mul (js_sub (js_div (num_of_nat promoters) (num_of_nat (length scores)))
                          (js_div (num_of_nat detractors) (num_of_nat (length scores))))
                  (Num 100))"

text \<open>CSAT.\<close>

definition csat_scores :: "survey_response_data list \<Rightarrow> jsnum list" where
  "csat_scores responses =
     flat_answers (\<lambda>a. str_ge (response a) ''1'' \<and> str_le (response a) ''5'')
       (\<lambda>a. parseInt (response a)) responses"

definition csat_calculateScore :: "survey_response_data list \<Rightarrow> jsnum" where
  "csat_calculateScore responses =
     (let satisfactionScores = csat_scores responses in
      if length satisfactionScores = 0 then Num 0
      else js_mul (js_div (js_sum satisfactionScores) (num_of_nat (length satisfactionScores)))
                  (Num 20))"

text \<open>CES.\<close>

definition ces_scores :: "survey_response_data list \<Rightarrow> jsnum list" where
  "ces_scores responses =
     flat_answers (\<lambda>a. str_ge (response a) ''1'' \<and> str_le (response a) ''7'')
       (\<lambda>a. parseInt (response a)) responses"

definition ces_calculateScore :: "survey_response_data list \<Rightarrow> jsnum" where
  "ces_calculateScore responses =
     (let effortScores = ces_scores responses in
      if length effortScores > 0
      then js_div (js_sum effortScores) (num_of_nat (length effortScores))
      else Num 0)"

section \<open>Plain objects used as dictionaries\<close>

text \<open>
  \<open>aggregatedData\<close> and \<open>result\<close> are plain objects used as dictionaries (the \<open>answers\<close>
  state of the TakeSurvey page, further down, is another). \<open>Object.entries\<close> lists the own
  properties of an object in
  property order: first the keys that are array indices (canonical decimal numerals below
  \<open>2^32 - 1\<close>) in ascending numeric order, then the other string keys in the order they
  were created. The model of an object is the list of its own entries in that order;
  \<open>obj_put\<close> creates or overwrites an own property, as an object literal and a spread do.
\<close>

type_synonym 'v js_object = "(string \<times> 'v) list"

definition is_array_index :: "string \<Rightarrow> bool" where
  "is_array_index k =
     (case k of
        [] \<Rightarrow> False
      | c # cs \<Rightarrow> list_all is_digit (c # cs) \<and> (c = CHR ''0'' \<and> cs = [] \<or> c \<noteq> CHR ''0'')
                 \<and> digits_val 10 digit_val (c # cs) < 4294967295)"

definition index_val :: "string \<Rightarrow> int" where
  "index_val k = digits_val 10 digit_val k"

text \<open>Whether a new key \<open>k\<close> is listed before an existing key \<open>k'\<close>.\<close>

definition key_before :: "string \<Rightarrow> string \<Rightarrow> bool" where
  "key_before k k' =
     (if is_array_index k
      then (if is_array_index k' then index_val k < index_val k' else True)
      else False)"

fun obj_put :: "string \<Rightarrow> 'v \<Rightarrow> 'v js_object \<Rightarrow> 'v js_object" where
  "obj_put k v [] = [(k, v)]"
| "obj_put k v ((k', v') # ps) =
     (if k = k' then (k, v) # ps
      else if key_before k k' then (k, v) # (k', v') # ps
      else (k', v') # obj_put k v ps)"

text \<open>The own property under a key, \<open>None\<close> when there is none.\<close>

definition obj_get :: "'v js_object \<Rightarrow> string \<Rightarrow> 'v option" where
  "obj_get obj k = map_of obj k"

text \<open>\<open>{ ...acc }\<close>: a fresh object that receives the own properties of \<open>acc\<close> in order.\<close>

definition obj_spread :: "'v js_object \<Rightarrow> 'v js_object" where
  "obj_spread acc = foldl (\<lambda>obj kv. obj_put (fst kv) (snd kv) obj) [] acc"

text \<open>
  A plain object inherits from \<open>Object.prototype\<close>. A read \<open>obj[key]\<close> that finds no own
  property finds the inherited member of that name: a built-in function under eleven
  names, and under \<open>__proto__\<close> an accessor whose getter returns the prototype object.
\<close>

definition object_prototype_functions :: "string list" where
  "object_prototype_functions =
     [''constructor'', ''hasOwnProperty'', ''isPrototypeOf'', ''propertyIsEnumerable'',
      ''toLocaleString'', ''toString'', ''valueOf'', ''__defineGetter__'', ''__defineSetter__'',
      ''__lookupGetter__'', ''__lookupSetter__'']"

definition object_prototype_members :: "string list" where
  "object_prototype_members = ''__proto__'' # object_prototype_functions"

text \<open>
  What a read \<open>obj[key]\<close> finds: the own property, the built-in function inherited under
  the key, the prototype object (for \<open>__proto__\<close>), or undefined.
\<close>

datatype 'v read_value = Own 'v | InheritedFunction string | InheritedProto | Undefined

definition obj_read :: "'v js_object \<Rightarrow> string \<Rightarrow> 'v read_value" where
  "obj_read obj k =
     (case obj_get obj k of
        Some v \<Rightarrow> Own v
      | None \<Rightarrow>
          if k = ''__proto__'' then InheritedProto
          else if k \<in> set object_prototype_functions then InheritedFunction k
          else Undefined)"

text \<open>
  The own properties after an assignment \<open>obj[key] = value\<close>. The key \<open>__proto__\<close>, when
  it is no own property, reaches the inherited accessor, and no own property is created:
  the setter replaces the prototype when the value is an object and does nothing otherwise.
\<close>

definition obj_assign :: "string \<Rightarrow> 'v \<Rightarrow> 'v js_object \<Rightarrow> 'v js_object" where
  "obj_assign k v obj =
     (if k = ''__proto__'' \<and> obj_get obj k = None then obj else obj_put k v obj)"

section \<open>The response aggregator\<close>

text \<open>
  The values \<open>aggregatedData\<close> comes to hold: a count, or a string. The strings arise
  from inherited members: \<open>SourceText k suffix\<close> is the source text of the built-in
  function that \<open>Object.prototype\<close> holds under \<open>k\<close> (an implementation-defined text, never
  empty) followed by \<open>suffix\<close>.
\<close>

datatype tally_value = Count nat | Text string | SourceText string string

text \<open>
  \<open>(aggregatedData[response] || 0) + 1\<close> on what the read found. Undefined, the count 0
  and the empty string are falsy and give \<open>0 + 1\<close>; a string, a function and an object are
  truthy, and \<open>+ 1\<close> appends \<open>1\<close> to the string, to the source text of the function, and
  to \<open>[object Object]\<close>.
\<close>

definition next_value :: "tally_value read_value \<Rightarrow> tally_value" where
  "next_value x =
     (case x of
        Undefined \<Rightarrow> Count 1
      | Own (Count n) \<Rightarrow> Count (n + 1)
      | Own (Text t) \<Rightarrow> if t = [] then Count 1 else Text (t @ ''1'')
      | Own (SourceText k suffix) \<Rightarrow> SourceText k (suffix @ ''1'')
      | InheritedFunction k \<Rightarrow> SourceText k ''1''
      | InheritedProto \<Rightarrow> Text ''[object Object]1'')"

text \<open>\<open>aggregatedData[response] = (aggregatedData[response] || 0) + 1\<close>.\<close>

definition tally_step :: "tally_value js_object \<Rightarrow> string \<Rightarrow> tally_value js_object" where
  "tally_step obj r = obj_assign r (next_value (obj_read obj r)) obj"

definition tally :: "tally_value js_object \<Rightarrow> string list \<Rightarrow> tally_value js_object" where
  "tally obj rs = foldl tally_step obj rs"

text \<open>
  \<open>Array.from({ length: 5 }, (_, i) => i + 1).reduce((acc, rating) => ({ ...acc, [rating]: 0 }), {})\<close>.
\<close>

definition rating_seed :: "tally_value js_object" where
  "rating_seed =
     foldl (\<lambda>acc rating. obj_put (string_of_nat rating) (Count 0) (obj_spread acc)) []
       (map (\<lambda>i. i + 1) [0..<5])"

text \<open>One entry of \<open>result\<close>: the \<open>data\<close> pairs (name, value) and the optional \<open>responses\<close>.\<close>

record aggregate =
  data :: "(string \<times> tally_value) list"
  responses :: "string list option"

definition question_responses :: "survey_response_data list \<Rightarrow> question \<Rightarrow> string list" where
  "question_responses rs question =
     flat_answers (\<lambda>a. question_id a = q_id question) response rs"

text \<open>The body of \<open>questions.forEach\<close>: the \<open>switch\<close> on the question type.\<close>

definition aggregate_question :: "survey_response_data list \<Rightarrow> question \<Rightarrow> aggregate" where
  "aggregate_question rs question =
     (case q_type question of
        multiple_choice \<Rightarrow>
          \<lparr>data = tally [] (question_responses rs question), responses = None\<rparr>
      | yes_no \<Rightarrow>
          \<lparr>data = tally [] (question_responses rs question), responses = None\<rparr>
      | rating \<Rightarrow>
          \<lparr>data = tally rating_seed (question_responses rs question), responses = None\<rparr>
      | text_type \<Rightarrow>
          \<lparr>data = [], responses = Some (question_responses rs question)\<rparr>)"

text \<open>\<open>result[question.id] = ...\<close> for every question, from the empty object.\<close>

definition aggregateResponses ::
  "survey_response_data list \<Rightarrow> question list \<Rightarrow> aggregate js_object"
where
  "aggregateResponses rs qs =
     foldl (\<lambda>result question. obj_assign (q_id question) (aggregate_question rs question) result)
       [] qs"

section \<open>Writes to the persistence layer\<close>

text \<open>
  The five places that write a survey row or its status, each as the write it sends (or
  \<open>None\<close> when its guard returns early). A status is the string literal the code sends.
  The one other write to the table, \<open>deleteSurvey\<close>, removes a row and sends no status.
\<close>

record survey_row =
  row_id :: string
  row_title :: string
  row_description :: string
  row_questions :: "question list"
  row_created_at :: string
  row_user_id :: string
  row_status :: string

datatype db_write =
  Insert survey_row
| UpdateStatus string string

text \<open>\<open>CreateSurvey.handleSubmit\<close>: \<open>uuid\<close> and \<open>now\<close> stand for \<open>uuidv4()\<close> and the clock.\<close>

definition handleSubmit :: "survey option \<Rightarrow> bool \<Rightarrow> string \<Rightarrow> string \<Rightarrow> db_write option" where
  "handleSubmit parsedSurvey isVerified uuid now =
     (case parsedSurvey of
        None \<Rightarrow> None
      | Some s \<Rightarrow>
          if \<not> isVerified then None
          else Some (Insert \<lparr>row_id = uuid, row_title = title s,
                          row_description = description s, row_questions = questions s,
                          row_created_at = now, row_user_id = ''anonymous'',
                          row_status = ''draft''\<rparr>))"

text \<open>
  \<open>CreateSurvey.setLive\<close>; the guard \<open>if (!savedSurveyId) return\<close> also stops on the empty
  string.
\<close>

definition setLive :: "string option \<Rightarrow> db_write option" where
  "setLive savedSurveyId =
     (case savedSurveyId of
        None \<Rightarrow> None
      | Some i \<Rightarrow> if i = [] then None else Some (UpdateStatus i ''live''))"

text \<open>\<open>CreateSurvey.toggleSurveyStatus\<close>.\<close>

definition toggleSurveyStatus :: "string \<Rightarrow> string \<Rightarrow> db_write option" where
  "toggleSurveyStatus surveyId currentStatus =
     Some (UpdateStatus surveyId (if currentStatus = ''live'' then ''draft'' else ''live''))"

text \<open>
  \<open>CreateSurvey.duplicateSurvey\<close>: \<open>listed\<close> is whether the id is among \<open>savedSurveys\<close>,
  \<open>original\<close> the row the select returned (\<open>None\<close> on a fetch error).
\<close>

definition duplicateSurvey ::
  "bool \<Rightarrow> survey_row option \<Rightarrow> string \<Rightarrow> string \<Rightarrow> db_write option"
where
  "duplicateSurvey listed original newSurveyId now =
     (if \<not> listed then None
      else case original of
             None \<Rightarrow> None
           | Some row \<Rightarrow>
               Some (Insert (row\<lparr>row_id := newSurveyId,
                                 row_title := row_title row @ '' (Copy)'',
                                 row_created_at := now,
                                 row_status := ''draft''\<rparr>)))"

text \<open>\<open>TakeSurvey.handleSave\<close>, on the survey the page has loaded (\<open>None\<close> while it is null).\<close>

definition take_handleSave :: "survey_row option \<Rightarrow> db_write option" where
  "take_handleSave survey =
     (case survey of
        None \<Rightarrow> None
      | Some s \<Rightarrow> Some (UpdateStatus (row_id s) ''saved''))"

text \<open>The calls of those five functions.\<close>

datatype action =
  HandleSubmit "survey option" bool string string
| SetLive "string option"
| ToggleSurveyStatus string string
| DuplicateSurvey bool "survey_row option" string string
| TakeHandleSave "survey_row option"

fun perform :: "action \<Rightarrow> db_write option" where
  "perform (HandleSubmit parsedSurvey isVerified uuid now) =
     handleSubmit parsedSurvey isVerified uuid now"
| "perform (SetLive savedSurveyId) = setLive savedSurveyId"
| "perform (ToggleSurveyStatus surveyId currentStatus) = toggleSurveyStatus surveyId currentStatus"
| "perform (DuplicateSurvey listed original newSurveyId now) =
     duplicateSurvey listed original newSurveyId now"
| "perform (TakeHandleSave survey) = take_handleSave survey"

fun written_status :: "db_write \<Rightarrow> string" where
  "written_status (Insert row) = row_status row"
| "written_status (UpdateStatus i s) = s"

text \<open>
  The \<open>surveys\<close> table, by id, and the effect of a write on it. An insert adds a row and
  never changes a stored one: the table is keyed by id, and under an id it already holds
  (the code inserts under fresh uuids) the model leaves it as it is.
  \<open>.update({ status }).eq('id', i)\<close> changes the status of the row with that id, if there
  is one.
\<close>

type_synonym surveys_table = "string \<rightharpoonup> survey_row"

fun apply_write :: "db_write \<Rightarrow> surveys_table \<Rightarrow> surveys_table" where
  "apply_write (Insert row) db =
     (case db (row_id row) of None \<Rightarrow> db(row_id row \<mapsto> row) | Some stored \<Rightarrow> db)"
| "apply_write (UpdateStatus i s) db =
     (case db i of None \<Rightarrow> db | Some row \<Rightarrow> db(i \<mapsto> row\<lparr>row_status := s\<rparr>))"

text \<open>The functions of the survey-creation page: all but \<open>TakeSurvey.handleSave\<close>.\<close>

definition create_page_action :: "action \<Rightarrow> bool" where
  "create_page_action a = (case a of TakeHandleSave s \<Rightarrow> False | _ \<Rightarrow> True)"

text \<open>
  The functions that the pages call: \<open>handleSubmit\<close>, \<open>setLive\<close> and \<open>handleSave\<close> are
  the \<open>onClick\<close> handlers of buttons and \<open>duplicateSurvey\<close> is called from a menu entry;
  \<open>toggleSurveyStatus\<close> is defined and called nowhere.
\<close>

definition exposed :: "action \<Rightarrow> bool" where
  "exposed a = (case a of ToggleSurveyStatus surveyId currentStatus \<Rightarrow> False | _ \<Rightarrow> True)"

section \<open>Submitting a response on the TakeSurvey page\<close>

text \<open>
  The page keeps \<open>answers: Record<string, string | number>\<close>, a plain object used as a
  dictionary by question id; it starts empty and every change copies it with one own
  property set. The model is the map of its own properties. A read \<open>answers[id]\<close> that
  finds no own property finds the member that \<open>Object.prototype\<close> holds under that name,
  if there is one: \<open>InheritedMember\<close> is that member, a value outside \<open>string | number\<close>.
\<close>

datatype answer_value = StrVal string | NumVal jsnum | InheritedMember string

fun truthy :: "answer_value \<Rightarrow> bool" where
  "truthy (StrVal s) = (s \<noteq> [])"
| "truthy (NumVal n) = (n \<noteq> Num 0 \<and> n \<noteq> NaN)"
| "truthy (InheritedMember k) = True"

record take_answer =
  ta_question_id :: string
  ta_response :: answer_value

record response_row =
  rr_id :: string
  rr_survey_id :: string
  rr_answers :: "take_answer list"
  rr_created_at :: string

text \<open>\<open>answers[question.id]\<close> (\<open>None\<close> is undefined), and \<open>answers[question.id] || ''\<close>.\<close>

definition answers_read :: "(string \<rightharpoonup> answer_value) \<Rightarrow> string \<Rightarrow> answer_value option" where
  "answers_read answers' k =
     (case answers' k of
        Some v \<Rightarrow> Some v
      | None \<Rightarrow> if k \<in> set object_prototype_members then Some (InheritedMember k) else None)"

definition answer_or_empty :: "(string \<rightharpoonup> answer_value) \<Rightarrow> string \<Rightarrow> answer_value" where
  "answer_or_empty answers' k =
     (case answers_read answers' k of
        None \<Rightarrow> StrVal []
      | Some v \<Rightarrow> if truthy v then v else StrVal [])"

text \<open>
  \<open>setAnswers(prev => ({ ...prev, [questionId]: value }))\<close>: the computed key of an object
  literal defines an own property, whatever the key.
\<close>

definition handleAnswerChange ::
  "(string \<rightharpoonup> answer_value) \<Rightarrow> string \<Rightarrow> answer_value \<Rightarrow> (string \<rightharpoonup> answer_value)"
where
  "handleAnswerChange prev questionId v = prev(questionId \<mapsto> v)"

text \<open>\<open>TakeSurvey.handleSubmit\<close>: the row it inserts into \<open>survey_responses\<close>.\<close>

definition take_handleSubmit ::
  "survey_row option \<Rightarrow> (string \<rightharpoonup> answer_value) \<Rightarrow> string \<Rightarrow> string \<Rightarrow> response_row option"
where
  "take_handleSubmit survey answers' uuid now =
     (case survey of
        None \<Rightarrow> None
      | Some s \<Rightarrow>
          Some \<lparr>rr_id = uuid, rr_survey_id = row_id s,
                rr_answers = map (\<lambda>question. \<lparr>ta_question_id = q_id question,
                                                ta_response = answer_or_empty answers' (q_id question)\<rparr>)
                               (row_questions s),
                rr_created_at = now\<rparr>)"

section \<open>Predicates and inputs used in the statements\<close>

text \<open>
  The filter in the words of the specification, a numeric string in the range from \<open>lo\<close>
  to \<open>hi\<close>: a decimal numeral whose value lies in the range.
\<close>

definition decimal_numeral :: "string \<Rightarrow> bool" where
  "decimal_numeral s = (s \<noteq> [] \<and> list_all is_digit s)"

definition spec_in_range :: "int \<Rightarrow> int \<Rightarrow> string \<Rightarrow> bool" where
  "spec_in_range lo hi s =
     (decimal_numeral s \<and> lo \<le> digits_val 10 digit_val s \<and> digits_val 10 digit_val s \<le> hi)"

text \<open>A response whose answers carry the given values, for concrete inputs.\<close>

definition ex_resp :: "string list \<Rightarrow> survey_response_data" where
  "ex_resp xs = \<lparr>r_id = ''r1'', created_at = ''2024-05-01T10:00:00.000Z'', answers = map (\<lambda>x. \<lparr>question_id = ''q1'', response = x\<rparr>) xs\<rparr>"

section \<open>The parser: definitions used in the statements and proofs\<close>

text \<open>
  The loop as a recursion over the lines that are left; \<open>scan_from_list\<close> below shows it is
  the loop.
\<close>

fun scan_list :: "string list \<Rightarrow> scan_state \<Rightarrow> js_error + scan_state" where
  "scan_list [] st = Inr st"
| "scan_list (raw # ls) st =
     (case scan_step st raw of
        Inl e \<Rightarrow> Inl e
      | Inr st' \<Rightarrow> scan_list ls st')"

text \<open>
  What the dash branch makes of the current question.
\<close>

definition added_option :: "question \<Rightarrow> string \<Rightarrow> question" where
  "added_option q line =
     q\<lparr>q_type := (if q_options q = None then multiple_choice else q_type q),
       q_options := Some ((case q_options q of None \<Rightarrow> [] | Some opts \<Rightarrow> opts)
                          @ [strip_bullet line])\<rparr>"

text \<open>
  The identifier \<open>q<i>\<close>.
\<close>

definition qid :: "nat \<Rightarrow> string" where
  "qid i = ''q'' @ string_of_nat i"

text \<open>
  Loop invariant: the questions pushed so far are numbered from 1, and the current question
  carries the next number.
\<close>

definition ids_ok :: "scan_state \<Rightarrow> bool" where
  "ids_ok st =
     (map q_id (fst st) = map qid [1..<Suc (length (fst st))] \<and>
      (case snd st of None \<Rightarrow> True | Some q \<Rightarrow> q_id q = qid (Suc (length (fst st)))))"

text \<open>
  The line feed, and the input of the worked example of the specification.
\<close>

definition nl :: string where
  "nl = [CHR 0x0A]"

definition example_text :: string where
  "example_text = ''Title: T'' @ nl @ ''Desc'' @ nl @ ''1. What is your name?'' @ nl @
                  ''2. Rate our service'' @ nl @ ''- a'' @ nl @ ''- b''"

text \<open>
  A line that, trimmed, starts with a dash or an asterisk.
\<close>

definition dash_line :: "string \<Rightarrow> bool" where
  "dash_line raw = (startsWith (trim raw) ''-'' \<or> startsWith (trim raw) ''*'')"

text \<open>
  A question that has an options array is a multiple-choice question; as a loop invariant.
\<close>

definition options_imply_choice :: "question \<Rightarrow> bool" where
  "options_imply_choice q = (q_options q = None \<or> q_type q = multiple_choice)"

definition choice_ok :: "scan_state \<Rightarrow> bool" where
  "choice_ok st = (list_all options_imply_choice (fst st) \<and>
                   (case snd st of None \<Rightarrow> True | Some q \<Rightarrow> options_imply_choice q))"

text \<open>
  No current question: \<open>currentQuestion.text\<close> is missing or empty.
\<close>

definition no_current :: "question option \<Rightarrow> bool" where
  "no_current cur = (case cur of None \<Rightarrow> True | Some q \<Rightarrow> q_text q = [])"

text \<open>
  The lines that follow the \<open>n\<close>-th non-blank line, blank ones kept.
\<close>

fun after_nonblank :: "nat \<Rightarrow> string list \<Rightarrow> string list" where
  "after_nonblank 0 ls = ls"
| "after_nonblank (Suc n) [] = []"
| "after_nonblank (Suc n) (l # ls) =
     (if nonblank l then after_nonblank n ls else after_nonblank (Suc n) ls)"

text \<open>
  The title and the description in the words of the specification: a leading \<open>Title:\<close>,
  \<open>Survey:\<close> or \<open>#\<close> is removed from the first non-blank line; the second non-blank line is
  taken verbatim.
\<close>

definition spec_strip_label :: "string \<Rightarrow> string" where
  "spec_strip_label s =
     (if startsWith (toLowerCase s) ''title:'' then drop 6 s
      else if startsWith (toLowerCase s) ''survey:'' then drop 7 s
      else if startsWith s ''#'' then drop 1 s
      else s)"

definition spec_title :: "string \<Rightarrow> string" where
  "spec_title txt =
     (case parsed_lines txt of
        [] \<Rightarrow> ''Untitled Survey''
      | l # ls \<Rightarrow> trim (spec_strip_label l))"

definition spec_description :: "string \<Rightarrow> string" where
  "spec_description txt =
     (case parsed_lines txt of
        l # d # ls \<Rightarrow> d
      | _ \<Rightarrow> ''No description provided'')"

text \<open>
  The scan in the words of the specification: from the third line on, with the blank lines
  still in the sequence.
\<close>

definition spec_scan_with_blanks :: "string \<Rightarrow> js_error + question list" where
  "spec_scan_with_blanks txt = parse_questions (split_lines txt)"

section \<open>The aggregator and the writes: definitions used in the statements and proofs\<close>

text \<open>
  The status the table holds for an id.
\<close>

definition stored_status :: "surveys_table \<Rightarrow> string \<Rightarrow> string option" where
  "stored_status db i = map_option row_status (db i)"

text \<open>
  A survey, its stored row and a rating question, for concrete inputs.
\<close>

definition ex_survey :: survey where
  "ex_survey = \<lparr>title = ''Lunch'', description = ''About lunch'',
                 questions = [\<lparr>q_id = ''q1'', q_text = ''Rate the soup'', q_type = rating,
                                q_options = None\<rparr>,
                              \<lparr>q_id = ''q2'', q_text = ''Anything else?'', q_type = text_type,
                                q_options = None\<rparr>]\<rparr>"

definition ex_row :: survey_row where
  "ex_row = \<lparr>row_id = ''s1'', row_title = ''Lunch'', row_description = ''About lunch'',
              row_questions = questions ex_survey, row_created_at = ''2024-05-01T10:00:00.000Z'',
              row_user_id = ''anonymous'', row_status = ''draft''\<rparr>"





text \<open>
  Property order on keys: an array index is never listed after a key that is not one, and
  array indices ascend.
\<close>

definition le_key :: "string \<Rightarrow> string \<Rightarrow> bool" where
  "le_key p k = (if is_array_index k then is_array_index p \<and> index_val p \<le> index_val k else True)"

fun ordered_keys :: "string list \<Rightarrow> bool" where
  "ordered_keys [] = True"
| "ordered_keys [k] = True"
| "ordered_keys (p # k # ks) = (le_key p k \<and> ordered_keys (k # ks))"






section \<open>The NPS filter\<close>

text \<open>
  Claim C1. The claim asks for the score 50 on the responses 9, 9, 10, 3, computed over
  the answers that are numerals between 0 and 10. The filter compares strings, so
  \<open>'9'\<close> and \<open>'3'\<close> (greater than \<open>'10'\<close> as strings) are dropped: only the 10 is
  kept and the score is 100. Of the one-digit responses only 0 and 1 pass the filter. The
  respond page stores a rating as the string of the radio button's value, so these are
  responses the formula receives.
\<close>

theorem nps_string_filter_drops_nine:
  "nps_scores [ex_resp [''9'', ''9'', ''10'', ''3'']] = [Num 10] \<and>
   nps_calculateScore [ex_resp [''9'', ''9'', ''10'', ''3'']] = Num 100 \<and>
   nps_scores [ex_resp [''2'', ''3'', ''4'', ''5'', ''6'', ''7'', ''8'', ''9'']] = [] \<and>
   nps_scores [ex_resp [''0'', ''1'', ''10'']] = [Num 0, Num 1, Num 10]"
  by code_simp

section \<open>The filters of the scoring formulas\<close>

text \<open>
  Claim C8. The claim asks for the score 0 when no answer is a numeric string in the range
  of the formula (0 to 10 for NPS, 1 to 5 for CSAT, 1 to 7 for CES). The filters compare
  strings, the defect of claim C1, so they keep answers that are no such numerals, and
  \<open>parseInt\<close> then reads a number off their front: the answer \<open>0x1F\<close> passes the NPS
  filter and is scored as 31, a promoter, so NPS is 100; \<open>2 times\<close> and \<open>4x\<close> pass the
  CSAT filter and give 60; the answer \<open>10\<close> passes the CSAT and the CES filter and gives a
  CSAT of 200 and a CES of 10. None of these answers is a numeral in the range of its
  formula, in whatever notation it is read. Every formula runs over the answers to all
  questions, free text included, and the respond page stores a rating on its scale from 0
  to 10 as a string, so these are answers the formulas receive.
\<close>

theorem scores_nonzero_on_rejected_answers:
  "filter (spec_in_range 0 10) [''0x1F''] = [] \<and>
   nps_calculateScore [ex_resp [''0x1F'']] = Num 100 \<and>
   filter (spec_in_range 1 5) [''2 times'', ''4x''] = [] \<and>
   csat_calculateScore [ex_resp [''2 times'', ''4x'']] = Num 60 \<and>
   filter (spec_in_range 1 5) [''10''] = [] \<and>
   csat_calculateScore [ex_resp [''10'']] = Num 200 \<and>
   filter (spec_in_range 1 7) [''10''] = [] \<and>
   ces_calculateScore [ex_resp [''10'']] = Num 10"
  by code_simp

section \<open>The parser loop\<close>

lemma string_of_nat_1: "string_of_nat (Suc 0) = ''1''"
  by code_simp

lemma js_index_nth: "i < length xs \<Longrightarrow> js_index xs i = Some (xs ! i)"
  by (induction xs i rule: js_index.induct) auto

lemma add_option_result: "add_option q line = Inr (added_option q line)"
  by (cases "q_options q") (simp_all add: add_option_def added_option_def Let_def)

lemma scan_step_cases:
  assumes "scan_step st raw = Inr st'"
  shows "st' = st \<or> st' = (flush st, Some (new_question (flush st) (trim raw))) \<or>
         (\<exists>q. snd st = Some q \<and> q_text q \<noteq> [] \<and> st' = (fst st, Some (added_option q (trim raw))))"
  using assms
  by (auto simp: scan_step_def Let_def add_option_result split: if_splits option.splits)

lemma scan_step_total: "\<exists>st'. scan_step st raw = Inr st'"
  by (simp add: scan_step_def Let_def add_option_result split: option.split)

lemma scan_from_list: "scan_from i lines st = scan_list (drop i lines) st"
proof (induction i lines st rule: scan_from.induct)
  case (1 i lines st)
  show ?case
  proof (cases "i < length lines")
    case False
    then show ?thesis by (subst scan_from.simps) simp
  next
    case True
    then have d: "drop i lines = (lines ! i) # drop (Suc i) lines"
      by (simp add: Cons_nth_drop_Suc)
    obtain st' where s: "scan_step st (lines ! i) = Inr st'"
      using scan_step_total by blast
    have "scan_from i lines st = scan_from (Suc i) lines st'"
      using True s by (subst scan_from.simps) (simp add: js_index_nth)
    also have "\<dots> = scan_list (drop (Suc i) lines) st'"
      using "1.IH"[OF True js_index_nth[OF True] s] .
    finally show ?thesis using d s by simp
  qed
qed

lemma scan_list_total: "\<exists>st'. scan_list ls st = Inr st'"
proof (induction ls arbitrary: st)
  case Nil
  show ?case by simp
next
  case (Cons raw ls)
  obtain st1 where "scan_step st raw = Inr st1" using scan_step_total by blast
  with Cons show ?case by simp
qed

lemma scan_list_invariant:
  assumes "P st"
    and "\<And>s raw s'. P s \<Longrightarrow> scan_step s raw = Inr s' \<Longrightarrow> P s'"
    and "scan_list ls st = Inr st'"
  shows "P st'"
  using assms(1,3)
proof (induction ls arbitrary: st)
  case Nil
  then show ?case by simp
next
  case (Cons raw ls)
  obtain st1 where s: "scan_step st raw = Inr st1" using scan_step_total by blast
  with Cons.prems have "P st1" "scan_list ls st1 = Inr st'" by (auto intro: assms(2))
  then show ?case by (rule Cons.IH)
qed

lemma ids_flush:
  "ids_ok st \<Longrightarrow> map q_id (flush st) = map qid [1..<Suc (length (flush st))]"
  by (cases st; cases "snd st") (auto simp: ids_ok_def flush_def upt_Suc_append simp del: upt_Suc)

lemma ids_ok_step:
  assumes "ids_ok st" and "scan_step st raw = Inr st'"
  shows "ids_ok st'"
proof -
  have f: "map q_id (flush st) = map qid [1..<Suc (length (flush st))]"
    using assms(1) by (rule ids_flush)
  have n: "ids_ok (flush st, Some (new_question (flush st) line))" for line
    using f by (simp add: ids_ok_def new_question_def qid_def del: upt_Suc)
  have a: "ids_ok (fst st, Some (added_option q line))" if "snd st = Some q" for q line
    using assms(1) that by (simp add: ids_ok_def added_option_def)
  show ?thesis
    using scan_step_cases[OF assms(2)] assms(1) n a by auto
qed

lemma parse_questions_ids:
  "\<exists>qs. parse_questions lines = Inr qs \<and> map q_id qs = map qid [1..<Suc (length qs)]"
proof -
  obtain st where s: "scan_list (drop 2 lines) ([], None) = Inr st"
    using scan_list_total by blast
  have "ids_ok ([], None)" by (simp add: ids_ok_def)
  then have "ids_ok st" using ids_ok_step s by (rule scan_list_invariant)
  then have "map q_id (flush st) = map qid [1..<Suc (length (flush st))]" by (rule ids_flush)
  then show ?thesis using s by (simp add: parse_questions_def scan_from_list del: upt_Suc)
qed

text \<open>
  Claim C7. For every input the parser returns a survey whose questions carry the
  identifiers \<open>q1\<close>, \<open>q2\<close>, ... in output order, whatever numbers the text used.
\<close>

theorem question_ids_sequential:
  "\<exists>s. convertTextToSurvey txt = Inr s \<and>
       map q_id (questions s) = map (\<lambda>i. ''q'' @ string_of_nat i) [1..<Suc (length (questions s))]"
proof -
  obtain qs where q: "parse_questions (parsed_lines txt) = Inr qs"
    "map q_id qs = map qid [1..<Suc (length qs)]"
    using parse_questions_ids by blast
  have "map q_id [placeholder] = map qid [1..<Suc (length [placeholder])]"
    by (simp add: placeholder_def qid_def string_of_nat_1)
  with q show ?thesis
    by (auto simp: convertTextToSurvey_def Let_def qid_def simp del: upt_Suc)
qed

text \<open>
  The theorem on a text whose own numbering is 7, 3, 12: the three questions are \<open>q1\<close>,
  \<open>q2\<close>, \<open>q3\<close>.
\<close>

theorem question_ids_sequential_witness:
  "\<exists>s. convertTextToSurvey (''Survey: S'' @ nl @ ''About'' @ nl @ ''7. First?'' @ nl @
                                ''3) Second'' @ nl @ ''12. Third'') = Inr s \<and>
       map q_id (questions s) = [''q1'', ''q2'', ''q3'']"
proof -
  let ?t = "''Survey: S'' @ nl @ ''About'' @ nl @ ''7. First?'' @ nl @ ''3) Second'' @ nl @ ''12. Third''"
  have n: "length (questions (projr (convertTextToSurvey ?t))) = 3"
    by code_simp
  have m: "map (\<lambda>i. ''q'' @ string_of_nat i) [1..<Suc 3] = [''q1'', ''q2'', ''q3'']"
    by code_simp
  obtain s where s: "convertTextToSurvey ?t = Inr s"
    "map q_id (questions s) = map (\<lambda>i. ''q'' @ string_of_nat i) [1..<Suc (length (questions s))]"
    using question_ids_sequential[of ?t] by blast
  from s(1) n have "length (questions s) = 3" by simp
  with s m show ?thesis by simp
qed

lemma infer_type_choice:
  "snd (infer_type t) = None \<or> fst (infer_type t) = multiple_choice"
  by (simp add: infer_type_def)

lemma choice_flush: "choice_ok st \<Longrightarrow> list_all options_imply_choice (flush st)"
  by (cases st; cases "snd st") (auto simp: choice_ok_def flush_def)

lemma choice_ok_step:
  assumes "choice_ok st" and "scan_step st raw = Inr st'"
  shows "choice_ok st'"
proof -
  have f: "list_all options_imply_choice (flush st)" using assms(1) by (rule choice_flush)
  have n: "choice_ok (flush st, Some (new_question (flush st) line))" for line
    using f infer_type_choice[of "toLowerCase line"]
    by (simp add: choice_ok_def new_question_def options_imply_choice_def)
  have a: "choice_ok (fst st, Some (added_option q line))" if "snd st = Some q" for q line
    using assms(1) that by (auto simp: choice_ok_def options_imply_choice_def added_option_def)
  show ?thesis
    using scan_step_cases[OF assms(2)] assms(1) n a by auto
qed

lemma parse_questions_choice:
  assumes "parse_questions lines = Inr qs"
  shows "list_all options_imply_choice qs"
proof -
  obtain st where s: "scan_list (drop 2 lines) ([], None) = Inr st"
    using scan_list_total by blast
  have "choice_ok ([], None)" by (simp add: choice_ok_def)
  then have "choice_ok st" using choice_ok_step s by (rule scan_list_invariant)
  then have "list_all options_imply_choice (flush st)" by (rule choice_flush)
  then show ?thesis using s assms by (simp add: parse_questions_def scan_from_list)
qed

lemma dash_not_numbered: "startsWith line ''-'' \<or> startsWith line ''*'' \<Longrightarrow> \<not> is_numbered line"
  by (cases line) (auto simp: is_numbered_def is_digit_def code_unit_def)

lemma dash_not_empty: "startsWith line ''-'' \<or> startsWith line ''*'' \<Longrightarrow> line \<noteq> []"
  by (cases line) auto

lemma dash_step_current:
  assumes "dash_line raw" and "q_text q \<noteq> []"
  shows "scan_step (qs, Some q) raw = Inr (qs, Some (added_option q (trim raw)))"
  using assms dash_not_numbered[of "trim raw"] dash_not_empty[of "trim raw"]
  by (simp add: scan_step_def Let_def dash_line_def add_option_result)

lemma dash_step_no_current:
  assumes "dash_line raw" and "flush (qs, cur) = qs"
  shows "scan_step (qs, cur) raw = Inr (qs, cur)"
  using assms dash_not_numbered[of "trim raw"] dash_not_empty[of "trim raw"]
  by (cases cur) (auto simp: scan_step_def Let_def dash_line_def flush_def)

lemma dash_only_list:
  assumes "list_all dash_line ls" and "flush (qs, cur) = qs"
  shows "scan_list ls (qs, cur) = Inr (qs, cur)"
  using assms by (induction ls) (simp_all add: dash_step_no_current)

lemma dash_only_no_question:
  assumes "list_all dash_line (drop 2 lines)"
  shows "parse_questions lines = Inr []"
  using dash_only_list[OF assms, of "[]" None]
  by (simp add: parse_questions_def scan_from_list flush_def)

section \<open>The parser never throws\<close>

lemma parse_questions_total: "\<exists>qs. parse_questions lines = Inr qs"
  using scan_list_total[of "drop 2 lines" "([], None)"]
  by (auto simp: parse_questions_def scan_from_list)

lemma convert_empty:
  "convertTextToSurvey [] =
     Inr \<lparr>title = ''Untitled Survey'', description = ''No description provided'',
          questions = [\<lparr>q_id = ''q1'', q_text = ''No questions were found in the response'',
                        q_type = text_type, q_options = None\<rparr>]\<rparr>"
  by code_simp

text \<open>
  Claim C2. For every input, the empty string included, the parser returns a survey and no
  error, and the survey has at least one question; when the scan produced no question the
  survey holds exactly the placeholder \<open>q1\<close>, "No questions were found in the response",
  of type text.
\<close>

theorem parser_total_with_placeholder:
  "(\<exists>s. convertTextToSurvey txt = Inr s \<and> questions s \<noteq> []) \<and>
   (parse_questions (parsed_lines txt) = Inr [] \<longrightarrow>
      (\<exists>s. convertTextToSurvey txt = Inr s \<and>
           questions s = [\<lparr>q_id = ''q1'', q_text = ''No questions were found in the response'',
                            q_type = text_type, q_options = None\<rparr>])) \<and>
   convertTextToSurvey [] =
     Inr \<lparr>title = ''Untitled Survey'', description = ''No description provided'',
          questions = [\<lparr>q_id = ''q1'', q_text = ''No questions were found in the response'',
                        q_type = text_type, q_options = None\<rparr>]\<rparr>"
proof (intro conjI impI)
  obtain qs where qs: "parse_questions (parsed_lines txt) = Inr qs"
    using parse_questions_total by blast
  then show "\<exists>s. convertTextToSurvey txt = Inr s \<and> questions s \<noteq> []"
    by (simp add: convertTextToSurvey_def Let_def)
next
  assume "parse_questions (parsed_lines txt) = Inr []"
  then show "\<exists>s. convertTextToSurvey txt = Inr s \<and>
           questions s = [\<lparr>q_id = ''q1'', q_text = ''No questions were found in the response'',
                            q_type = text_type, q_options = None\<rparr>]"
    by (simp add: convertTextToSurvey_def Let_def placeholder_def)
next
  show "convertTextToSurvey [] =
     Inr \<lparr>title = ''Untitled Survey'', description = ''No description provided'',
          questions = [\<lparr>q_id = ''q1'', q_text = ''No questions were found in the response'',
                        q_type = text_type, q_options = None\<rparr>]\<rparr>"
    by (rule convert_empty)
qed

text \<open>The theorem on a text with a title, a description and one stray option line.\<close>

theorem parser_total_with_placeholder_witness:
  "parse_questions (parsed_lines (''Feedback'' @ nl @ ''Tell us more'' @ nl @ ''- stray option'')) = Inr [] \<and>
   (\<exists>s. convertTextToSurvey (''Feedback'' @ nl @ ''Tell us more'' @ nl @ ''- stray option'') = Inr s \<and>
        questions s = [\<lparr>q_id = ''q1'', q_text = ''No questions were found in the response'',
                         q_type = text_type, q_options = None\<rparr>])"
proof -
  have h: "parse_questions (parsed_lines (''Feedback'' @ nl @ ''Tell us more'' @ nl @ ''- stray option'')) = Inr []"
    by code_simp
  show ?thesis
    using h parser_total_with_placeholder[of "''Feedback'' @ nl @ ''Tell us more'' @ nl @ ''- stray option''"]
    by blast
qed

section \<open>Option lines\<close>

lemma no_current_flush: "no_current cur \<Longrightarrow> flush (qs, cur) = qs"
  by (cases cur) (auto simp: no_current_def flush_def)

lemma added_option_fields:
  "q_id (added_option q line) = q_id q \<and> q_text (added_option q line) = q_text q \<and>
   q_type (added_option q line) = (if q_options q = None then multiple_choice else q_type q) \<and>
   q_options (added_option q line) =
     Some ((case q_options q of None \<Rightarrow> [] | Some opts \<Rightarrow> opts) @ [strip_bullet line])"
  by (simp add: added_option_def)

lemma example_result:
  "convertTextToSurvey example_text =
     Inr \<lparr>title = ''T'', description = ''Desc'',
          questions =
            [\<lparr>q_id = ''q1'', q_text = ''What is your name?'', q_type = text_type,
               q_options = None\<rparr>,
             \<lparr>q_id = ''q2'', q_text = ''Rate our service'', q_type = multiple_choice,
               q_options = Some [''a'', ''b'']\<rparr>]\<rparr>"
  by code_simp

lemma example_before_dash:
  "scan_from 2 (take 4 (parsed_lines example_text)) ([], None) =
     Inr ([\<lparr>q_id = ''q1'', q_text = ''What is your name?'', q_type = text_type,
              q_options = None\<rparr>],
          Some \<lparr>q_id = ''q2'', q_text = ''Rate our service'', q_type = rating,
                 q_options = None\<rparr>)"
  by code_simp

text \<open>
  Claim C5. On the worked example the parser returns title "T", description "Desc",
  question 1 of type text and question 2 of type multiple_choice with options a and b;
  after the line "2. Rate our service" and before the first dash line, question 2 has
  type rating. In general: a dash or asterisk line on a current question with text keeps
  its id and text, makes it multiple_choice when it has no options yet, and appends the
  item to the options it has (so the options are created once and never reset); such a
  line is dropped when there is no current question; a text whose scanned lines are all
  dash lines yields no question; and every question the scan returns with options is of
  type multiple_choice.
\<close>

theorem dash_lines_switch_to_multiple_choice:
  "convertTextToSurvey example_text =
     Inr \<lparr>title = ''T'', description = ''Desc'',
          questions =
            [\<lparr>q_id = ''q1'', q_text = ''What is your name?'', q_type = text_type,
               q_options = None\<rparr>,
             \<lparr>q_id = ''q2'', q_text = ''Rate our service'', q_type = multiple_choice,
               q_options = Some [''a'', ''b'']\<rparr>]\<rparr> \<and>
   scan_from 2 (take 4 (parsed_lines example_text)) ([], None) =
     Inr ([\<lparr>q_id = ''q1'', q_text = ''What is your name?'', q_type = text_type,
              q_options = None\<rparr>],
          Some \<lparr>q_id = ''q2'', q_text = ''Rate our service'', q_type = rating,
                 q_options = None\<rparr>) \<and>
   (dash_line raw \<and> q_text q \<noteq> [] \<longrightarrow>
      (\<exists>q'. scan_step (qs, Some q) raw = Inr (qs, Some q') \<and>
            q_id q' = q_id q \<and> q_text q' = q_text q \<and>
            q_type q' = (if q_options q = None then multiple_choice else q_type q) \<and>
            q_options q' =
              Some ((case q_options q of None \<Rightarrow> [] | Some opts \<Rightarrow> opts)
                    @ [strip_bullet (trim raw)]))) \<and>
   (dash_line raw \<and> no_current cur \<longrightarrow> scan_step (qs, cur) raw = Inr (qs, cur)) \<and>
   (list_all dash_line (drop 2 lines) \<longrightarrow> parse_questions lines = Inr []) \<and>
   (parse_questions lines = Inr ps \<longrightarrow> list_all options_imply_choice ps)"
proof (intro conjI impI)
  assume "dash_line raw \<and> q_text q \<noteq> []"
  then have "scan_step (qs, Some q) raw = Inr (qs, Some (added_option q (trim raw)))"
    by (simp add: dash_step_current)
  then show "\<exists>q'. scan_step (qs, Some q) raw = Inr (qs, Some q') \<and>
            q_id q' = q_id q \<and> q_text q' = q_text q \<and>
            q_type q' = (if q_options q = None then multiple_choice else q_type q) \<and>
            q_options q' =
              Some ((case q_options q of None \<Rightarrow> [] | Some opts \<Rightarrow> opts)
                    @ [strip_bullet (trim raw)])"
    using added_option_fields[of q "trim raw"] by blast
next
  assume "dash_line raw \<and> no_current cur"
  then show "scan_step (qs, cur) raw = Inr (qs, cur)"
    by (simp add: dash_step_no_current no_current_flush)
next
  assume "list_all dash_line (drop 2 lines)"
  then show "parse_questions lines = Inr []" by (rule dash_only_no_question)
next
  assume "parse_questions lines = Inr ps"
  then show "list_all options_imply_choice ps" by (rule parse_questions_choice)
qed (rule example_result example_before_dash)+

text \<open>
  The theorem on the line "- a" after a rating question and with no current question, on
  a text with two option lines and no numbered line, and on a parsed choice question.
\<close>

theorem dash_lines_switch_to_multiple_choice_witness:
  "(\<exists>q'. scan_step ([], Some \<lparr>q_id = ''q1'', q_text = ''Rate our service'', q_type = rating,
                                q_options = None\<rparr>) ''- a'' = Inr ([], Some q') \<and>
         q_type q' = multiple_choice \<and> q_options q' = Some [''a'']) \<and>
   scan_step ([], None) ''- a'' = Inr ([], None) \<and>
   parse_questions [''Feedback'', ''Tell us more'', ''- x'', ''* y''] = Inr [] \<and>
   list_all options_imply_choice
     [\<lparr>q_id = ''q1'', q_text = ''Pick one'', q_type = multiple_choice, q_options = Some [''x'']\<rparr>]"
proof -
  let ?q = "\<lparr>q_id = ''q1'', q_text = ''Rate our service'', q_type = rating, q_options = None\<rparr>"
  have d: "dash_line ''- a''" by code_simp
  have t: "q_text ?q \<noteq> []" by simp
  have b: "strip_bullet (trim ''- a'') = ''a''" by code_simp
  have n: "no_current None" by (simp add: no_current_def)
  have l: "list_all dash_line (drop 2 [''Feedback'', ''Tell us more'', ''- x'', ''* y''])"
    by code_simp
  have p: "parse_questions [''T'', ''D'', ''1. Pick one'', ''- x''] =
             Inr [\<lparr>q_id = ''q1'', q_text = ''Pick one'', q_type = multiple_choice,
                    q_options = Some [''x'']\<rparr>]"
    by code_simp
  let ?ps = "[\<lparr>q_id = ''q1'', q_text = ''Pick one'', q_type = multiple_choice,
                 q_options = Some [''x'']\<rparr>]"
  note a = dash_lines_switch_to_multiple_choice[where raw = "''- a''" and q = ?q and qs = "[]"
             and cur = None and lines = "[''Feedback'', ''Tell us more'', ''- x'', ''* y'']"]
  note c = dash_lines_switch_to_multiple_choice[where lines = "[''T'', ''D'', ''1. Pick one'', ''- x'']"
             and ps = ?ps]
  have 1: "\<exists>q'. scan_step ([], Some ?q) ''- a'' = Inr ([], Some q') \<and>
         q_type q' = multiple_choice \<and> q_options q' = Some [''a'']"
    using a d t b by auto
  have 2: "scan_step ([], None) ''- a'' = Inr ([], None)"
    using a d n by blast
  have 3: "parse_questions [''Feedback'', ''Tell us more'', ''- x'', ''* y''] = Inr []"
    using a l by blast
  have 4: "list_all options_imply_choice ?ps"
    using c p by blast
  show ?thesis using 1 2 3 4 by blast
qed

section \<open>Title and description\<close>

lemma toLowerCase_append: "toLowerCase (a @ b) = toLowerCase a @ toLowerCase b"
  by (simp add: toLowerCase_def)

lemma toLowerCase_length: "length (toLowerCase s) = length s"
  by (simp add: toLowerCase_def)

lemma lower_char_colon: "lower_char CHR '':'' = CHR '':''"
  by code_simp

lemma toLowerCase_colon: "toLowerCase (CHR '':'' # r) = CHR '':'' # toLowerCase r"
  by (simp add: toLowerCase_def lower_char_colon)

lemma toLowerCase_hash: "toLowerCase ''#'' = ''#''"
  by code_simp

lemma startsWith_append: "startsWith (p @ r) p"
  by (induction p) simp_all

lemma strip_label_title:
  assumes "toLowerCase l = ''title''"
  shows "strip_title_label (l @ '':'' @ rest) = dropWhile is_space rest"
proof -
  have len: "length l = 5" using toLowerCase_length[of l] assms by simp
  have "toLowerCase (l @ '':'' @ rest) = ''title:'' @ toLowerCase rest"
    using assms by (simp add: toLowerCase_append toLowerCase_colon)
  then have "startsWith (toLowerCase (l @ '':'' @ rest)) ''title:''"
    using startsWith_append[of "''title:''" "toLowerCase rest"] by simp
  then show ?thesis using len by (simp add: strip_title_label_def)
qed

lemma strip_label_survey:
  assumes "toLowerCase l = ''survey''"
  shows "strip_title_label (l @ '':'' @ rest) = dropWhile is_space rest"
proof -
  have len: "length l = 6" using toLowerCase_length[of l] assms by simp
  have e: "toLowerCase (l @ '':'' @ rest) = ''survey:'' @ toLowerCase rest"
    using assms by (simp add: toLowerCase_append toLowerCase_colon)
  have "startsWith (toLowerCase (l @ '':'' @ rest)) ''survey:''"
    using startsWith_append[of "''survey:''" "toLowerCase rest"] e by simp
  moreover have "\<not> startsWith (toLowerCase (l @ '':'' @ rest)) ''title:''"
    using e by simp
  ultimately show ?thesis using len by (simp add: strip_title_label_def)
qed

lemma strip_label_hash:
  "strip_title_label (''#'' @ '':'' @ rest) = dropWhile is_space rest"
proof -
  have e: "toLowerCase (''#'' @ '':'' @ rest) = ''#:'' @ toLowerCase rest"
    using toLowerCase_append[of "''#''" "'':'' @ rest"]
    by (simp add: toLowerCase_colon toLowerCase_hash)
  have "\<not> startsWith (toLowerCase (''#'' @ '':'' @ rest)) ''title:''"
       "\<not> startsWith (toLowerCase (''#'' @ '':'' @ rest)) ''survey:''"
    using e by simp_all
  then show ?thesis by (simp add: strip_title_label_def)
qed

lemma parsed_lines_nonblank: "list_all nonblank (parsed_lines txt)"
  by (simp add: parsed_lines_def list_all_iff)

text \<open>
  Claim C6, amended. The title is the first non-blank line with a leading \<open>Title:\<close>,
  \<open>Survey:\<close> or \<open>#:\<close> (letters in either case, the colon required after \<open>#\<close> too) and
  the white space after it removed, then trimmed; it is "Untitled Survey" when there is no
  non-blank line or nothing is left. The description is the second non-blank line,
  trimmed; it is "No description provided" when there is no such line. A line without one
  of the three labels is left as it is.
\<close>

theorem title_and_description:
  "(\<exists>s. convertTextToSurvey txt = Inr s \<and>
        title s =
          (case parsed_lines txt of
             [] \<Rightarrow> ''Untitled Survey''
           | l # ls \<Rightarrow> if trim (strip_title_label l) = [] then ''Untitled Survey''
                       else trim (strip_title_label l)) \<and>
        description s =
          (case parsed_lines txt of
             l # d # ls \<Rightarrow> trim d
           | _ \<Rightarrow> ''No description provided'')) \<and>
   (toLowerCase l = ''title'' \<or> toLowerCase l = ''survey'' \<or> l = ''#'' \<longrightarrow>
      strip_title_label (l @ '':'' @ rest) = dropWhile is_space rest) \<and>
   (\<not> startsWith (toLowerCase line) ''title:'' \<and> \<not> startsWith (toLowerCase line) ''survey:'' \<and>
    \<not> startsWith line ''#:'' \<longrightarrow> strip_title_label line = line)"
proof (intro conjI impI)
  obtain qs where qs: "parse_questions (parsed_lines txt) = Inr qs"
    using parse_questions_total by blast
  have nb: "list_all nonblank (parsed_lines txt)" by (rule parsed_lines_nonblank)
  show "\<exists>s. convertTextToSurvey txt = Inr s \<and>
        title s =
          (case parsed_lines txt of
             [] \<Rightarrow> ''Untitled Survey''
           | l # ls \<Rightarrow> if trim (strip_title_label l) = [] then ''Untitled Survey''
                       else trim (strip_title_label l)) \<and>
        description s =
          (case parsed_lines txt of
             l # d # ls \<Rightarrow> trim d
           | _ \<Rightarrow> ''No description provided'')"
  proof (cases "parsed_lines txt")
    case Nil
    with qs show ?thesis by (simp add: convertTextToSurvey_def Let_def or_else_def)
  next
    case outer: (Cons l0 ls0)
    show ?thesis
    proof (cases ls0)
      case Nil
      with outer qs show ?thesis by (simp add: convertTextToSurvey_def Let_def or_else_def)
    next
      case inner: (Cons d ds)
      from outer inner nb have "trim d \<noteq> []" by (simp add: nonblank_def)
      with outer inner qs show ?thesis
        by (simp add: convertTextToSurvey_def Let_def or_else_def)
    qed
  qed
next
  assume "toLowerCase l = ''title'' \<or> toLowerCase l = ''survey'' \<or> l = ''#''"
  then show "strip_title_label (l @ '':'' @ rest) = dropWhile is_space rest"
    using strip_label_title strip_label_survey strip_label_hash by blast
next
  assume "\<not> startsWith (toLowerCase line) ''title:'' \<and> \<not> startsWith (toLowerCase line) ''survey:'' \<and>
    \<not> startsWith line ''#:''"
  then show "strip_title_label line = line" by (simp add: strip_title_label_def)
qed

text \<open>The theorem on a mixed-case label, on a markdown heading and on a two-line text.\<close>

theorem title_and_description_witness:
  "strip_title_label (''TiTLe'' @ '':'' @ ''  My survey '') = ''My survey '' \<and>
   strip_title_label ''# Heading'' = ''# Heading'' \<and>
   (\<exists>s. convertTextToSurvey (''TiTLe:  My survey '' @ nl @ nl @ ''  About it  '') = Inr s \<and>
        title s = ''My survey'' \<and> description s = ''About it'')"
proof -
  have l: "toLowerCase ''TiTLe'' = ''title''" by code_simp
  have d: "dropWhile is_space ''  My survey '' = ''My survey ''" by code_simp
  have n: "\<not> startsWith (toLowerCase ''# Heading'') ''title:'' \<and>
           \<not> startsWith (toLowerCase ''# Heading'') ''survey:'' \<and>
           \<not> startsWith ''# Heading'' ''#:''" by code_simp
  have p: "parsed_lines (''TiTLe:  My survey '' @ nl @ nl @ ''  About it  '') =
             [''TiTLe:  My survey '', ''  About it  '']" by code_simp
  have t: "trim (strip_title_label ''TiTLe:  My survey '') = ''My survey''" by code_simp
  have a: "trim ''  About it  '' = ''About it''" by code_simp
  note inst = title_and_description[of "''TiTLe:  My survey '' @ nl @ nl @ ''  About it  ''"
                 "''TiTLe''" "''  My survey ''" "''# Heading''"]
  have 1: "strip_title_label (''TiTLe'' @ '':'' @ ''  My survey '') = ''My survey ''"
    using inst l d by simp
  have 2: "strip_title_label ''# Heading'' = ''# Heading''"
    using inst n by blast
  have 3: "\<exists>s. convertTextToSurvey (''TiTLe:  My survey '' @ nl @ nl @ ''  About it  '') = Inr s \<and>
        title s = ''My survey'' \<and> description s = ''About it''"
    using inst p t a by simp
  show ?thesis using 1 2 3 by blast
qed

text \<open>
  Claim C6 as stated fails on the text "# T", line feed, " D": the specification's reading
  gives the title "T" and the description " D"; the code returns "# T" (the \<open>#\<close> has no
  colon) and "D" (trimmed).
\<close>

theorem title_and_description_counterexample:
  "convertTextToSurvey (''# T'' @ nl @ '' D'') =
     Inr \<lparr>title = ''# T'', description = ''D'',
          questions = [\<lparr>q_id = ''q1'', q_text = ''No questions were found in the response'',
                        q_type = text_type, q_options = None\<rparr>]\<rparr> \<and>
   spec_title (''# T'' @ nl @ '' D'') = ''T'' \<and>
   spec_description (''# T'' @ nl @ '' D'') = '' D''"
  by code_simp

section \<open>Blank lines\<close>

lemma filter_after_nonblank:
  "filter nonblank (after_nonblank n ls) = drop n (filter nonblank ls)"
  by (induction n ls rule: after_nonblank.induct) simp_all

lemma blank_step: "\<not> nonblank l \<Longrightarrow> scan_step st l = Inr st"
  by (simp add: scan_step_def nonblank_def)

lemma scan_list_filter: "scan_list (filter nonblank ls) st = scan_list ls st"
  by (induction ls arbitrary: st) (auto simp: blank_step split: sum.splits)

text \<open>
  Claim C9, amended. Blank lines are dropped once, before the title and the description
  are taken and before the scan: the scanned sequence has no blank line. The scan covers
  what follows the second non-blank line, and its result is the one obtained on those
  lines with the blank ones still among them, since the loop skips a blank line.
\<close>

theorem blank_lines_dropped_before_scan:
  "parse_questions (parsed_lines txt) =
     (case scan_from 0 (after_nonblank 2 (split_lines txt)) ([], None) of
        Inl e \<Rightarrow> Inl e
      | Inr st \<Rightarrow> Inr (flush st)) \<and>
   scan_from 0 (filter nonblank ls) st0 = scan_from 0 ls st0 \<and>
   list_all nonblank (parsed_lines txt)"
proof (intro conjI)
  have "scan_list (drop 2 (filter nonblank (split_lines txt))) ([], None) =
        scan_list (after_nonblank 2 (split_lines txt)) ([], None)"
    using scan_list_filter[of "after_nonblank 2 (split_lines txt)" "([], None)"]
    by (simp add: filter_after_nonblank)
  then show "parse_questions (parsed_lines txt) =
     (case scan_from 0 (after_nonblank 2 (split_lines txt)) ([], None) of
        Inl e \<Rightarrow> Inl e
      | Inr st \<Rightarrow> Inr (flush st))"
    by (simp add: parse_questions_def parsed_lines_def scan_from_list)
next
  show "scan_from 0 (filter nonblank ls) st0 = scan_from 0 ls st0"
    by (simp add: scan_from_list scan_list_filter)
next
  show "list_all nonblank (parsed_lines txt)" by (rule parsed_lines_nonblank)
qed

text \<open>The theorem on a text with blank lines between and after the first two lines.\<close>

theorem blank_lines_dropped_before_scan_witness:
  "parse_questions (parsed_lines (''T'' @ nl @ nl @ ''D'' @ nl @ nl @ ''1. A'' @ nl @ ''   '' @ nl @ ''- x'')) =
     Inr [\<lparr>q_id = ''q1'', q_text = ''A'', q_type = multiple_choice, q_options = Some [''x'']\<rparr>] \<and>
   after_nonblank 2 (split_lines (''T'' @ nl @ nl @ ''D'' @ nl @ nl @ ''1. A'' @ nl @ ''   '' @ nl @ ''- x'')) =
     ['''', ''1. A'', ''   '', ''- x'']"
proof -
  let ?t = "''T'' @ nl @ nl @ ''D'' @ nl @ nl @ ''1. A'' @ nl @ ''   '' @ nl @ ''- x''"
  have a: "after_nonblank 2 (split_lines ?t) = ['''', ''1. A'', ''   '', ''- x'']"
    by code_simp
  have s: "scan_from 0 ['''', ''1. A'', ''   '', ''- x''] ([], None) =
             Inr ([], Some \<lparr>q_id = ''q1'', q_text = ''A'', q_type = multiple_choice,
                             q_options = Some [''x'']\<rparr>)"
    by code_simp
  have f: "flush ([], Some \<lparr>q_id = ''q1'', q_text = ''A'', q_type = multiple_choice,
                             q_options = Some [''x'']\<rparr>) =
           [\<lparr>q_id = ''q1'', q_text = ''A'', q_type = multiple_choice, q_options = Some [''x'']\<rparr>]"
    by code_simp
  show ?thesis
    using blank_lines_dropped_before_scan[of ?t] a s f by simp
qed

text \<open>
  Claim C9 as stated fails on "T", blank line, "1. A": scanning from the third line with
  the blank line still in the sequence finds the question "A"; the code takes "1. A" as the
  description and finds no question.
\<close>

theorem blank_lines_dropped_before_scan_counterexample:
  "parse_questions (parsed_lines (''T'' @ nl @ nl @ ''1. A'')) = Inr [] \<and>
   spec_scan_with_blanks (''T'' @ nl @ nl @ ''1. A'') =
     Inr [\<lparr>q_id = ''q1'', q_text = ''A'', q_type = text_type, q_options = None\<rparr>]"
  by code_simp

section \<open>The rating tally\<close>

































lemma ordered_put_after:
  assumes "ordered_keys (p # map fst obj)" and "le_key p k"
  shows "ordered_keys (p # map fst (obj_put k v obj))"
  using assms
proof (induction obj arbitrary: p)
  case Nil
  then show ?case by simp
next
  case (Cons kv ps)
  obtain k' v' where kv: "kv = (k', v')" by (cases kv)
  show ?case
  proof (cases "k = k'")
    case True
    with Cons.prems kv show ?thesis by simp
  next
    case ne: False
    show ?thesis
    proof (cases "key_before k k'")
      case True
      then have "le_key k k'" by (simp add: key_before_def le_key_def split: if_splits)
      with Cons.prems kv ne True show ?thesis by simp
    next
      case False
      with ne have "le_key k' k"
        by (auto simp: key_before_def le_key_def split: if_splits)
      moreover from Cons.prems kv have "ordered_keys (k' # map fst ps)" by simp
      ultimately have "ordered_keys (k' # map fst (obj_put k v ps))" by (rule Cons.IH[rotated])
      with Cons.prems kv ne False show ?thesis by simp
    qed
  qed
qed

lemma ordered_put:
  assumes "ordered_keys (map fst obj)"
  shows "ordered_keys (map fst (obj_put k v obj))"
proof (cases obj)
  case Nil
  then show ?thesis by simp
next
  case (Cons kv ps)
  obtain k' v' where kv: "kv = (k', v')" by (cases kv)
  show ?thesis
  proof (cases "k = k'")
    case True
    with assms Cons kv show ?thesis by simp
  next
    case ne: False
    show ?thesis
    proof (cases "key_before k k'")
      case True
      then have "le_key k k'" by (simp add: key_before_def le_key_def split: if_splits)
      with assms Cons kv ne True show ?thesis by simp
    next
      case False
      with ne have "le_key k' k"
        by (auto simp: key_before_def le_key_def split: if_splits)
      moreover from assms Cons kv have "ordered_keys (k' # map fst ps)" by simp
      ultimately have "ordered_keys (k' # map fst (obj_put k v ps))"
        by (rule ordered_put_after[rotated])
      with Cons kv ne False show ?thesis by simp
    qed
  qed
qed

lemma ordered_tally:
  "ordered_keys (map fst obj) \<Longrightarrow> ordered_keys (map fst (tally obj vals))"
  unfolding tally_def
  by (induction vals arbitrary: obj) (simp_all add: tally_step_def obj_assign_def ordered_put)








lemma proto_not_index: "\<not> is_array_index ''__proto__''"
  by code_simp







section \<open>Status writes\<close>

lemma create_page_statuses:
  assumes "create_page_action a" and "perform a = Some w"
  shows "written_status w = ''draft'' \<or> written_status w = ''live''"
  using assms
  by (cases a)
     (auto simp: create_page_action_def handleSubmit_def setLive_def toggleSurveyStatus_def
                 duplicateSurvey_def split: option.splits if_splits)

lemma inserts_are_drafts:
  assumes "perform a = Some (Insert row)"
  shows "row_status row = ''draft''"
  using assms
  by (cases a)
     (auto simp: handleSubmit_def setLive_def toggleSurveyStatus_def duplicateSurvey_def
                 take_handleSave_def split: option.splits if_splits)

lemma exposed_update_is_set_live:
  assumes "create_page_action a" and "exposed a" and "perform a = Some (UpdateStatus i st)"
  shows "a = SetLive (Some i) \<and> st = ''live''"
  using assms
  by (cases a)
     (auto simp: create_page_action_def exposed_def handleSubmit_def setLive_def
                 duplicateSurvey_def split: option.splits if_splits)

lemma insert_keeps_stored:
  assumes "stored_status db j = Some old"
  shows "stored_status (apply_write (Insert row) db) j = Some old"
  using assms by (auto simp: stored_status_def split: option.splits)

lemma update_changes_one:
  assumes "stored_status db j = Some old"
    and "stored_status (apply_write (UpdateStatus i st) db) j = Some new" and "old \<noteq> new"
  shows "j = i \<and> new = st"
  using assms by (auto simp: stored_status_def split: option.splits if_splits)

lemma exposed_transition:
  assumes "create_page_action a" and "exposed a" and "perform a = Some w"
    and "stored_status db j = Some old" and "stored_status (apply_write w db) j = Some new"
    and "old \<noteq> new"
  shows "a = SetLive (Some j) \<and> w = UpdateStatus j ''live'' \<and> new = ''live''"
proof (cases w)
  case (Insert row)
  with assms(4,5,6) show ?thesis using insert_keeps_stored[of db j old row] by simp
next
  case (UpdateStatus i st)
  with assms(4,5,6) have "j = i \<and> new = st" using update_changes_one by blast
  moreover from assms(1,2,3) UpdateStatus have "a = SetLive (Some i) \<and> st = ''live''"
    using exposed_update_is_set_live by blast
  ultimately show ?thesis using UpdateStatus by simp
qed

text \<open>
  Claim C3, amended. Every status the survey-creation page writes (saving a new survey,
  duplicating one, set-live, toggling) is draft or live. A row is only ever inserted with
  status draft, and a newly saved survey is stored with status draft. For a survey in one
  of these two statuses, the only transition the page exposes is the explicit set-live
  action taking draft to live: among the functions of the page that are called at all,
  the only one that updates a status is set-live, with the status live; on a stored
  survey that is draft or live, a change of its status by such a function is the change
  from draft to live made by set-live on that survey; and set-live on a stored draft
  survey does make it live.
\<close>

theorem create_page_writes_draft_or_live:
  "(create_page_action a \<and> perform a = Some w \<longrightarrow>
      written_status w = ''draft'' \<or> written_status w = ''live'') \<and>
   (perform a = Some (Insert row) \<longrightarrow> row_status row = ''draft'') \<and>
   (db uuid = None \<longrightarrow>
      (\<exists>w1. handleSubmit (Some s) True uuid now = Some w1 \<and>
            stored_status (apply_write w1 db) uuid = Some ''draft'')) \<and>
   (create_page_action a \<and> exposed a \<and> perform a = Some (UpdateStatus i st) \<longrightarrow>
      a = SetLive (Some i) \<and> st = ''live'') \<and>
   (create_page_action a \<and> exposed a \<and> perform a = Some w \<and>
    stored_status db j = Some old \<and> (old = ''draft'' \<or> old = ''live'') \<and>
    stored_status (apply_write w db) j = Some new \<and> old \<noteq> new \<longrightarrow>
      a = SetLive (Some j) \<and> old = ''draft'' \<and> new = ''live'') \<and>
   (i \<noteq> [] \<and> stored_status db i = Some ''draft'' \<longrightarrow>
      create_page_action (SetLive (Some i)) \<and> exposed (SetLive (Some i)) \<and>
      (\<exists>w2. perform (SetLive (Some i)) = Some w2 \<and>
            stored_status (apply_write w2 db) i = Some ''live''))"
proof (intro conjI impI)
  assume "create_page_action a \<and> perform a = Some w"
  then show "written_status w = ''draft'' \<or> written_status w = ''live''"
    using create_page_statuses by blast
next
  assume "perform a = Some (Insert row)"
  then show "row_status row = ''draft''" by (rule inserts_are_drafts)
next
  assume "db uuid = None"
  then show "\<exists>w1. handleSubmit (Some s) True uuid now = Some w1 \<and>
         stored_status (apply_write w1 db) uuid = Some ''draft''"
    by (simp add: handleSubmit_def stored_status_def)
next
  assume h: "create_page_action a \<and> exposed a \<and> perform a = Some (UpdateStatus i st)"
  then have r: "a = SetLive (Some i) \<and> st = ''live''" using exposed_update_is_set_live by blast
  from r show "a = SetLive (Some i)" by simp
  from r show "st = ''live''" by simp
next
  assume h: "create_page_action a \<and> exposed a \<and> perform a = Some w \<and>
    stored_status db j = Some old \<and> (old = ''draft'' \<or> old = ''live'') \<and>
    stored_status (apply_write w db) j = Some new \<and> old \<noteq> new"
  then have r: "a = SetLive (Some j) \<and> w = UpdateStatus j ''live'' \<and> new = ''live''"
    using exposed_transition[of a w db j old new] by blast
  from r show "a = SetLive (Some j)" by simp
  from r show "new = ''live''" by simp
  from r h show "old = ''draft''" by auto
next
  assume h: "i \<noteq> [] \<and> stored_status db i = Some ''draft''"
  show "create_page_action (SetLive (Some i))" by (simp add: create_page_action_def)
  show "exposed (SetLive (Some i))" by (simp add: exposed_def)
  from h show "\<exists>w2. perform (SetLive (Some i)) = Some w2 \<and>
         stored_status (apply_write w2 db) i = Some ''live''"
    by (auto simp: setLive_def stored_status_def)
qed

text \<open>
  The theorem on the duplicate of a live survey, on saving a new survey into a table that
  holds another one, and on set-live for a stored draft, the one change of a stored status.
\<close>

theorem create_page_writes_draft_or_live_witness:
  "perform (DuplicateSurvey True (Some (ex_row\<lparr>row_status := ''live''\<rparr>)) ''s2'' ''2024-05-02T09:00:00.000Z'') =
     Some (Insert (ex_row\<lparr>row_id := ''s2'', row_title := ''Lunch (Copy)'',
                          row_created_at := ''2024-05-02T09:00:00.000Z'', row_status := ''draft''\<rparr>)) \<and>
   written_status (Insert (ex_row\<lparr>row_id := ''s2'', row_title := ''Lunch (Copy)'',
                          row_created_at := ''2024-05-02T09:00:00.000Z'', row_status := ''draft''\<rparr>)) = ''draft'' \<and>
   (\<exists>w1. handleSubmit (Some ex_survey) True ''s3'' ''2024-05-02T09:30:00.000Z'' = Some w1 \<and>
         stored_status (apply_write w1 (Map.empty(''s1'' \<mapsto> ex_row))) ''s3'' = Some ''draft'') \<and>
   create_page_action (SetLive (Some ''s1'')) \<and> exposed (SetLive (Some ''s1'')) \<and>
   perform (SetLive (Some ''s1'')) = Some (UpdateStatus ''s1'' ''live'') \<and>
   stored_status (Map.empty(''s1'' \<mapsto> ex_row)) ''s1'' = Some ''draft'' \<and>
   stored_status (apply_write (UpdateStatus ''s1'' ''live'') (Map.empty(''s1'' \<mapsto> ex_row))) ''s1'' =
     Some ''live''"
proof -
  let ?a = "DuplicateSurvey True (Some (ex_row\<lparr>row_status := ''live''\<rparr>)) ''s2'' ''2024-05-02T09:00:00.000Z''"
  let ?row = "ex_row\<lparr>row_id := ''s2'', row_title := ''Lunch (Copy)'',
                          row_created_at := ''2024-05-02T09:00:00.000Z'', row_status := ''draft''\<rparr>"
  let ?db = "Map.empty(''s1'' \<mapsto> ex_row)"
  let ?l = "SetLive (Some ''s1'')"
  have c: "create_page_action ?a" by (simp add: create_page_action_def)
  have p: "perform ?a = Some (Insert ?row)" by (simp add: duplicateSurvey_def ex_row_def)
  have f: "?db ''s3'' = None" by simp
  have d: "stored_status ?db ''s1'' = Some ''draft''"
    by (simp add: stored_status_def ex_row_def)
  have ne: "''s1'' \<noteq> []" by simp
  note dup = create_page_writes_draft_or_live[of ?a "Insert ?row" ?row ?db "''s3''" ex_survey
               "''2024-05-02T09:30:00.000Z''" "''s1''" "''live''" "''s1''" "''draft''" "''live''"]
  have 1: "written_status (Insert ?row) = ''draft''" using dup c p by simp
  have 2: "\<exists>w1. handleSubmit (Some ex_survey) True ''s3'' ''2024-05-02T09:30:00.000Z'' = Some w1 \<and>
         stored_status (apply_write w1 ?db) ''s3'' = Some ''draft''"
    using dup f by blast
  have cl: "create_page_action ?l \<and> exposed ?l" and
    ex: "\<exists>w2. perform ?l = Some w2 \<and> stored_status (apply_write w2 ?db) ''s1'' = Some ''live''"
    using dup ne d by blast+
  then obtain w2 where w2: "perform ?l = Some w2"
    "stored_status (apply_write w2 ?db) ''s1'' = Some ''live''" by blast
  note live = create_page_writes_draft_or_live[of ?l w2 ?row ?db "''s3''" ex_survey
               "''2024-05-02T09:30:00.000Z''" "''s1''" "''live''" "''s1''" "''draft''" "''live''"]
  have w: "w2 = UpdateStatus ''s1'' ''live''" using w2(1) by (simp add: setLive_def)
  have "?l = SetLive (Some ''s1'') \<and> ''draft'' = ''draft'' \<and> ''live'' = ''live''"
    using live cl w2 d by simp
  with 1 2 p d w2 w cl show ?thesis by simp
qed

text \<open>
  Claim C3 as stated fails on the save action of the TakeSurvey page, which writes the
  status "saved": a stored draft survey becomes a saved one, and set-live then takes it
  from saved to live.
\<close>

theorem create_page_writes_draft_or_live_counterexample:
  "perform (TakeHandleSave (Some ex_row)) = Some (UpdateStatus ''s1'' ''saved'') \<and>
   written_status (UpdateStatus ''s1'' ''saved'') \<noteq> ''draft'' \<and>
   written_status (UpdateStatus ''s1'' ''saved'') \<noteq> ''live'' \<and>
   stored_status (Map.empty(''s1'' \<mapsto> ex_row)) ''s1'' = Some ''draft'' \<and>
   stored_status (apply_write (UpdateStatus ''s1'' ''saved'') (Map.empty(''s1'' \<mapsto> ex_row))) ''s1'' =
     Some ''saved'' \<and>
   perform (SetLive (Some ''s1'')) = Some (UpdateStatus ''s1'' ''live'') \<and>
   stored_status
     (apply_write (UpdateStatus ''s1'' ''live'')
        (apply_write (UpdateStatus ''s1'' ''saved'') (Map.empty(''s1'' \<mapsto> ex_row)))) ''s1'' =
     Some ''live''"
  by (simp add: take_handleSave_def setLive_def stored_status_def ex_row_def)

section \<open>TakeSurvey submissions\<close>

text \<open>
  What the submission does for every survey: one answer per question, in question order,
  each with the id of its question. The response is the stored answer when there is a
  truthy one, and the empty string for an unanswered question whose id names no member of
  \<open>Object.prototype\<close>.
\<close>

lemma take_submit_shape:
  "\<exists>row. take_handleSubmit (Some s) answers' uuid now = Some row \<and>
         rr_survey_id row = row_id s \<and>
         length (rr_answers row) = length (row_questions s) \<and>
         map ta_question_id (rr_answers row) = map q_id (row_questions s) \<and>
         map ta_response (rr_answers row) =
           map (\<lambda>question. answer_or_empty answers' (q_id question)) (row_questions s)"
  by (simp add: take_handleSubmit_def comp_def)

lemma answer_or_empty_cases:
  "answer_or_empty answers' k =
     (case answers' k of
        Some v \<Rightarrow> if truthy v then v else StrVal []
      | None \<Rightarrow> if k \<in> set object_prototype_members then InheritedMember k else StrVal [])"
  by (simp add: answer_or_empty_def answers_read_def split: option.splits)

text \<open>
  Claim C10. The claim asks for the empty string as the response to a question the
  respondent left unanswered. The page reads \<open>answers[question.id] || ''\<close> from a plain
  object, so for a question whose id names a member of \<open>Object.prototype\<close> (question
  ids come from the stored survey as they are) the read finds the inherited member, which
  is truthy: with nothing answered, the answer submitted for a question with the id
  \<open>constructor\<close> carries that member and not the empty string, next to the empty string for
  the question \<open>q2\<close>.
\<close>

theorem take_submit_inherited_member:
  "take_handleSubmit
     (Some (ex_row\<lparr>row_questions :=
        [\<lparr>q_id = ''constructor'', q_text = ''Who built it?'', q_type = text_type,
          q_options = None\<rparr>,
         \<lparr>q_id = ''q2'', q_text = ''Anything else?'', q_type = text_type, q_options = None\<rparr>]\<rparr>))
     Map.empty ''r1'' ''2024-05-03T08:00:00.000Z'' =
   Some \<lparr>rr_id = ''r1'', rr_survey_id = ''s1'',
         rr_answers = [\<lparr>ta_question_id = ''constructor'',
                         ta_response = InheritedMember ''constructor''\<rparr>,
                       \<lparr>ta_question_id = ''q2'', ta_response = StrVal []\<rparr>],
         rr_created_at = ''2024-05-03T08:00:00.000Z''\<rparr> \<and>
   answer_or_empty Map.empty ''constructor'' \<noteq> StrVal []"
  by (simp add: take_handleSubmit_def answer_or_empty_def answers_read_def ex_row_def
                object_prototype_members_def object_prototype_functions_def)

end
